theory Spec2Isabelle
  imports Main "HOL-Library.Word"
begin

section \<open>The Substreams sinker: data model\<close>

text \<open>
  The development embeds the sinker of \<^verbatim>\<open>sinker.go\<close> (package \<^verbatim>\<open>sink\<close>): the
  constructor \<^verbatim>\<open>New\<close>, \<^verbatim>\<open>Run\<close>, the retry loop \<^verbatim>\<open>run\<close>, \<^verbatim>\<open>adjustedEndBlock\<close> and the
  receive loop \<^verbatim>\<open>doRequest\<close>. The source file holds two copies of the sinker; the
  first one (with \<^verbatim>\<open>requestActiveStartBlock\<close>) is the one modelled, and the stop block
  of the second, older copy is kept beside it as \<open>legacyStopBlock\<close>.

  Go's \<^verbatim>\<open>uint64\<close> is a 64-bit word: \<open>+\<close> and \<open>-\<close> wrap around as they do in Go.
\<close>

type_synonym uint64 = "64 word"
type_synonym uint32 = "32 word"

datatype SubstreamsMode = SubstreamsModeDevelopment | SubstreamsModeProduction

subsection \<open>Errors\<close>

text \<open>
  The gRPC status codes (\<^verbatim>\<open>google.golang.org/grpc/codes\<close>).
\<close>

datatype Code =
    OK | Canceled | Unknown | InvalidArgument | DeadlineExceeded | NotFound
  | AlreadyExists | PermissionDenied | ResourceExhausted | FailedPrecondition
  | Aborted | OutOfRange | Unimplemented | Internal | Unavailable | DataLoss
  | Unauthenticated

text \<open>
  Go error values, as far as the sinker builds and inspects them: \<open>EOF\<close> is
  \<^verbatim>\<open>io.EOF\<close>, \<open>GRPCError c m\<close> a gRPC status error, \<open>ErrorString m\<close> any other leaf
  error, \<open>Wrapf m e\<close> is \<^verbatim>\<open>fmt.Errorf("m: %w", e)\<close>, \<open>Wrap2 a b\<close> is
  \<^verbatim>\<open>fmt.Errorf("%w: %w", a, b)\<close> and \<open>RetryableError e\<close> is
  \<^verbatim>\<open>derr.NewRetryableError(e)\<close>, whose \<^verbatim>\<open>Unwrap()\<close> gives \<open>e\<close> back.
\<close>

datatype error =
    EOF
  | GRPCError Code string
  | ErrorString string
  | ErrBackOffExpired
  | Wrapf string error
  | Wrap2 error error
  | RetryableError error

text \<open>\<^verbatim>\<open>errors.Is(err, io.EOF)\<close>: \<open>EOF\<close> somewhere in the chain of wrapped errors.\<close>

fun isEOF :: "error \<Rightarrow> bool" where
  "isEOF EOF = True"
| "isEOF (Wrapf m e) = isEOF e"
| "isEOF (Wrap2 a b) = (isEOF a \<or> isEOF b)"
| "isEOF (RetryableError e) = isEOF e"
| "isEOF (GRPCError c m) = False"
| "isEOF (ErrorString m) = False"
| "isEOF ErrBackOffExpired = False"

text \<open>
  \<^verbatim>\<open>errors.As(err, &retryableError)\<close> followed by \<^verbatim>\<open>retryableError.Unwrap()\<close>: the
  cause of the first \<open>RetryableError\<close> of the chain (depth first), \<open>None\<close> when the
  chain has none.
\<close>

fun asRetryable :: "error \<Rightarrow> error option" where
  "asRetryable (RetryableError e) = Some e"
| "asRetryable (Wrapf m e) = asRetryable e"
| "asRetryable (Wrap2 a b) =
     (case asRetryable a of Some c \<Rightarrow> Some c | None \<Rightarrow> asRetryable b)"
| "asRetryable EOF = None"
| "asRetryable (GRPCError c m) = None"
| "asRetryable (ErrorString m) = None"
| "asRetryable ErrBackOffExpired = None"

text \<open>\<^verbatim>\<open>dgrpc.AsGRPCError(err)\<close>, then \<^verbatim>\<open>Code()\<close>: the status code of a gRPC error.\<close>

fun asGRPCError :: "error \<Rightarrow> Code option" where
  "asGRPCError (GRPCError c m) = Some c"
| "asGRPCError (Wrapf m e) = asGRPCError e"
| "asGRPCError (Wrap2 a b) =
     (case asGRPCError a of Some c \<Rightarrow> Some c | None \<Rightarrow> asGRPCError b)"
| "asGRPCError (RetryableError e) = asGRPCError e"
| "asGRPCError EOF = None"
| "asGRPCError (ErrorString m) = None"
| "asGRPCError ErrBackOffExpired = None"

definition retryable :: "error \<Rightarrow> error" where
  "retryable err = RetryableError err"

subsection \<open>Messages of the RPC\<close>

record Clock =
  clockId :: string
  clockNumber :: uint64
  clockTimestamp :: int

record BlockRef =
  refId :: string
  refNumber :: uint64

record BlockScopedData =
  bsdClock :: Clock
  bsdCursor :: string
  bsdOutputName :: string
  bsdFinalBlockHeight :: uint64

record BlockUndoSignal =
  lastValidBlock :: BlockRef
  lastValidCursor :: string

record BlockRange =
  rangeStartBlock :: uint64
  rangeEndBlock :: uint64

record Stage =
  stageModules :: "string list"
  completedRanges :: "BlockRange list"

record Job =
  jobStage :: uint32
  jobStartBlock :: uint64
  jobProcessedBlocks :: uint64

record ModulesProgress =
  runningJobs :: "Job list"
  stages :: "Stage list"

record SessionInit =
  traceId :: string
  resolvedStartBlock :: uint64
  linearHandoffBlock :: uint64
  maxParallelWorkers :: uint64

text \<open>
  \<^verbatim>\<open>resp.Message\<close>, the \<^verbatim>\<open>oneof\<close> of a response. \<open>UnknownMessage\<close> stands for every
  value the type switch sends to its \<^verbatim>\<open>default\<close> branch.
\<close>

datatype Response =
    Response_Progress ModulesProgress
  | Response_BlockScopedData BlockScopedData
  | Response_BlockUndoSignal BlockUndoSignal
  | Response_DebugSnapshotData
  | Response_DebugSnapshotComplete
  | Response_Session SessionInit
  | UnknownMessage

text \<open>
  The request. \<^verbatim>\<open>StartBlockNum\<close> is \<^verbatim>\<open>int64(startBlock)\<close>: the same 64 bits. The
  modules of the package, which the request also carries, are left out.
\<close>

record Request =
  StartBlockNum :: uint64
  StopBlockNum :: uint64
  StartCursor :: string
  FinalBlocksOnly :: bool
  OutputModule :: string
  ProductionMode :: bool

subsection \<open>Collaborators\<close>

text \<open>
  A cursor (\<^verbatim>\<open>*Cursor\<close>; \<open>None\<close> is the nil pointer) is opaque here: it is the
  string it was parsed from.
\<close>

datatype Cursor = Cursor string

text \<open>
  The undo buffer (\<^verbatim>\<open>*blockDataBuffer\<close>): its capacity (a Go \<^verbatim>\<open>int\<close>) and the
  blocks it holds.
\<close>

record blockDataBuffer =
  bufferCapacity :: int
  bufferBlocks :: "BlockScopedData list"

text \<open>
  A back-off policy (\<^verbatim>\<open>backoff.BackOff\<close>) is an object with two methods. As a value
  it is what \<^verbatim>\<open>NextBackOff()\<close> answers now (\<open>None\<close> is \<^verbatim>\<open>backoff.Stop\<close>, \<open>Some d\<close> a
  sleep of \<open>d\<close> milliseconds), the policy it is after that call, and the policy it is
  after \<^verbatim>\<open>Reset()\<close>.
\<close>

codatatype BackOff =
  BackOff (NextBackOff: "nat option") (afterNext: BackOff) (afterReset: BackOff)

datatype level = Debug | Info | Warn | Error

text \<open>
  What a run does that can be seen from outside, in the order it happens: log lines,
  the RPCs opened, the calls of the handler, the calls of the back-off policy, sleeps
  and the shutdown.
\<close>

datatype event =
    Log level string
  | Blocks Request
  | HandleBlockScopedData BlockScopedData "bool option" Cursor
  | HandleBlockUndoSignal BlockUndoSignal Cursor
  | HandleBlockRangeCompletion "Cursor option"
  | BackOffReset
  | Sleep nat
  | Shutdown "error option"

text \<open>
  The handler is the caller's code and has a state of its own: each method is given
  the events so far and answers with its error (\<open>None\<close> is \<^verbatim>\<open>nil\<close>).
  \<open>handleBlockRangeCompletion\<close> is \<open>None\<close> for a handler that does not implement
  \<^verbatim>\<open>SinkerCompletionHandler\<close>.
\<close>

record SinkerHandler =
  handleBlockScopedData ::
    "event list \<Rightarrow> BlockScopedData \<Rightarrow> bool option \<Rightarrow> Cursor \<Rightarrow> error option"
  handleBlockUndoSignal ::
    "event list \<Rightarrow> BlockUndoSignal \<Rightarrow> Cursor \<Rightarrow> error option"
  handleBlockRangeCompletion ::
    "(event list \<Rightarrow> Cursor option \<Rightarrow> error option) option"

text \<open>
  Functions of this package and of its libraries that are not part of the source
  under study, taken as parameters: \<^verbatim>\<open>NewCursor\<close>, \<^verbatim>\<open>(*Cursor).String\<close>, the two
  operations of the undo buffer, and the error of \<^verbatim>\<open>client.NewSubstreamsClient\<close>.
\<close>

record Deps =
  NewCursor :: "string \<Rightarrow> error + Cursor"
  cursorString :: "Cursor option \<Rightarrow> string"
  bufferHandleBlockScopedData ::
    "blockDataBuffer \<Rightarrow> BlockScopedData \<Rightarrow> error + (BlockScopedData list \<times> blockDataBuffer)"
  bufferHandleBlockUndoSignal ::
    "blockDataBuffer \<Rightarrow> BlockUndoSignal \<Rightarrow> error + blockDataBuffer"
  newSubstreamsClientError :: "error option"

subsection \<open>The sinker and the process state\<close>

record ModuleOutput =
  outputType :: string

record Module =
  moduleName :: string
  moduleOutput :: "ModuleOutput option"

record Package =
  pkgModules :: "Module list option"

record Range =
  startBlock :: uint64
  endBlock :: "uint64 option"

record ClientConfig =
  endpoint :: string
  authToken :: string

record Logger =
  debugEnabled :: bool

text \<open>
  The struct \<^verbatim>\<open>Sinker\<close>. \<open>tracer\<close> is the answer of \<^verbatim>\<open>s.tracer.Enabled()\<close>, \<open>None\<close>
  for a nil tracer. The package, the output module and the logger are not nil in a
  sinker that \<^verbatim>\<open>New\<close> has returned (it panics before), so they are no options here.
\<close>

record Sinker =
  mode :: SubstreamsMode
  pkg :: Package
  outputModule :: Module
  outputModuleHash :: string
  clientConfig :: "ClientConfig option"
  logger :: Logger
  tracer :: "bool option"
  backOff :: BackOff
  buffer :: "blockDataBuffer option"
  blockRange :: "Range option"
  infiniteRetry :: bool
  finalBlocksOnly :: bool
  livenessChecker :: "(Clock \<Rightarrow> bool) option"
  extraHeaders :: "string list"
  requestActiveStartBlock :: uint64

text \<open>
  The Prometheus metrics are process globals. A gauge with a \<^verbatim>\<open>stage\<close> label is a
  map from the stage number (\<^verbatim>\<open>stageString\<close> is injective on it) to the value last
  set. The byte-size metrics, the time drift and the statistics of \<^verbatim>\<open>s.stats\<close> read
  data that is not modelled and are left out.
\<close>

record Metrics =
  ProgressMessageLastBlock :: "uint32 \<rightharpoonup> uint64"
  ProgressMessageRunningJobs :: "uint32 \<rightharpoonup> uint64"
  ProgressMessageLastContiguousBlock :: "uint32 \<rightharpoonup> uint64"
  ProgressMessageCount :: nat
  ProgressMessageTotalProcessedBlocks :: uint64
  HeadBlockNumber :: uint64
  DataMessageCount :: nat
  UndoMessageCount :: nat
  UnknownMessageCount :: nat
  BackprocessingCompletion :: uint64
  SubstreamsErrorCount :: nat

record St =
  sinker :: Sinker
  metrics :: Metrics
  events :: "event list"

definition emit :: "event \<Rightarrow> St \<Rightarrow> St" where
  "emit e st = st\<lparr>events := events st @ [e]\<rparr>"

definition stageString :: "nat \<Rightarrow> uint32" where
  "stageString i = of_nat i"

section \<open>Progress messages\<close>

text \<open>
  The loop over \<^verbatim>\<open>msg.RunningJobs\<close>: the sum of the processed blocks, the greatest
  end block of each stage and the number of jobs of each stage.
\<close>

fun runningJobsLoop ::
  "Job list \<Rightarrow> uint64 \<times> (uint32 \<rightharpoonup> uint64) \<times> (uint32 \<rightharpoonup> uint64)
    \<Rightarrow> uint64 \<times> (uint32 \<rightharpoonup> uint64) \<times> (uint32 \<rightharpoonup> uint64)" where
  "runningJobsLoop [] acc = acc"
| "runningJobsLoop (j # js) (tot, latestEndBlockPerStage, jobsPerStage) =
     (let jobEndBlock = jobStartBlock j + jobProcessedBlocks j in
      runningJobsLoop js
        (tot + jobProcessedBlocks j,
         (case latestEndBlockPerStage (jobStage j) of
            None \<Rightarrow> latestEndBlockPerStage(jobStage j \<mapsto> jobEndBlock)
          | Some prevEndBlock \<Rightarrow>
              if jobEndBlock > prevEndBlock
              then latestEndBlockPerStage(jobStage j \<mapsto> jobEndBlock)
              else latestEndBlockPerStage),
         jobsPerStage(jobStage j \<mapsto>
           (case jobsPerStage (jobStage j) of None \<Rightarrow> 0 | Some n \<Rightarrow> n) + 1)))"

text \<open>
  The inner loop over \<^verbatim>\<open>stage.CompletedRanges\<close> of stage \<open>i\<close> out of \<open>n\<close> stages,
  at range index \<open>j\<close>. It threads the gauge \<^verbatim>\<open>ProgressMessageLastContiguousBlock\<close> and
  the running total.
\<close>

fun completedRangesLoop ::
  "SubstreamsMode \<Rightarrow> uint64 \<Rightarrow> nat \<Rightarrow> nat \<Rightarrow> nat \<Rightarrow> BlockRange list
    \<Rightarrow> (uint32 \<rightharpoonup> uint64) \<times> uint64 \<Rightarrow> (uint32 \<rightharpoonup> uint64) \<times> uint64" where
  "completedRangesLoop m active n i j [] acc = acc"
| "completedRangesLoop m active n i j (r # rs) (gauge, tot) =
     completedRangesLoop m active n i (Suc j) rs
       ((if m = SubstreamsModeProduction \<and> int i = int n - 1
         then (if active \<le> rangeStartBlock r \<and> rangeEndBlock r \<ge> active
               then gauge(stageString i \<mapsto> rangeEndBlock r)
               else gauge)
         else (if j = 0 then gauge(stageString i \<mapsto> rangeEndBlock r) else gauge)),
        tot + (rangeEndBlock r - rangeStartBlock r))"

text \<open>The outer loop over \<^verbatim>\<open>msg.Stages\<close>, at stage index \<open>i\<close>.\<close>

fun stagesLoop ::
  "SubstreamsMode \<Rightarrow> uint64 \<Rightarrow> nat \<Rightarrow> nat \<Rightarrow> Stage list
    \<Rightarrow> (uint32 \<rightharpoonup> uint64) \<times> uint64 \<Rightarrow> (uint32 \<rightharpoonup> uint64) \<times> uint64" where
  "stagesLoop m active n i [] acc = acc"
| "stagesLoop m active n i (stage # rest) acc =
     stagesLoop m active n (Suc i) rest
       (completedRangesLoop m active n i 0 (completedRanges stage) acc)"

text \<open>The \<^verbatim>\<open>Response_Progress\<close> branch of \<^verbatim>\<open>doRequest\<close>.\<close>

definition handleProgress :: "ModulesProgress \<Rightarrow> St \<Rightarrow> St" where
  "handleProgress msg st =
     (case runningJobsLoop (runningJobs msg) (0, Map.empty, Map.empty) of
        (jobsTotal, latestEndBlockPerStage, jobsPerStage) \<Rightarrow>
     (case stagesLoop (mode (sinker st)) (requestActiveStartBlock (sinker st))
             (length (stages msg)) 0 (stages msg)
             (ProgressMessageLastContiguousBlock (metrics st), jobsTotal) of
        (lastContiguous, totalProcessedBlocks) \<Rightarrow>
     (let st1 = st\<lparr>metrics := (metrics st)\<lparr>
                  ProgressMessageLastBlock :=
                    ProgressMessageLastBlock (metrics st) ++ latestEndBlockPerStage,
                  ProgressMessageRunningJobs :=
                    ProgressMessageRunningJobs (metrics st) ++ jobsPerStage,
                  ProgressMessageLastContiguousBlock := lastContiguous,
                  ProgressMessageCount := ProgressMessageCount (metrics st) + 1,
                  ProgressMessageTotalProcessedBlocks := totalProcessedBlocks\<rparr>\<rparr>
      in if tracer (sinker st) = Some True
         then emit (Log Debug ''received response Progress'') st1
         else st1)))"

section \<open>One RPC: \<^verbatim>\<open>doRequest\<close>\<close>

text \<open>
  How a call returns: with a result, by a runtime panic (a nil dereference), by
  never returning (blocked in \<^verbatim>\<open>stream.Recv\<close>), or by leaving the process
  (\<^verbatim>\<open>log.Fatalf\<close>).
\<close>

datatype 'a exec = Returns 'a | Panics | Hangs | Exits

datatype ctxError = ContextCanceled | ContextDeadlineExceeded

text \<open>
  What the server and the caller's context do during one RPC: the error of
  \<^verbatim>\<open>ssClient.Blocks\<close> if it fails, the messages \<^verbatim>\<open>stream.Recv\<close> delivers in order, the
  error it returns after them (\<open>None\<close>: it never returns again), what \<^verbatim>\<open>ctx.Err()\<close>
  is when \<^verbatim>\<open>run\<close> reads it after the RPC, and whether \<^verbatim>\<open>ctx.Done()\<close> is closed when
  the back-off policy is asked.
\<close>

record Session =
  blocksError :: "error option"
  responses :: "Response list"
  recvError :: "error option"
  ctxErr :: "ctxError option"
  ctxDone :: bool

text \<open>The branch \<^verbatim>\<open>if err != nil\<close> after \<^verbatim>\<open>stream.Recv()\<close>: the error \<^verbatim>\<open>doRequest\<close> returns.\<close>

definition recvFailure :: "error \<Rightarrow> error" where
  "recvFailure err =
     (if isEOF err then err
      else if asGRPCError err = Some Unauthenticated then Wrapf ''stream failure'' err
      else if asGRPCError err = Some InvalidArgument then Wrapf ''stream invalid'' err
      else retryable err)"

definition invalidCursor :: "error \<Rightarrow> error" where
  "invalidCursor err =
     Wrapf ''invalid received cursor, 'bstream' library in here is probably not up to date'' err"

definition traceLog :: "string \<Rightarrow> St \<Rightarrow> St" where
  "traceLog m st = (if tracer (sinker st) = Some True then emit (Log Debug m) st else st)"

text \<open>
  The loop over \<^verbatim>\<open>dataToProcess\<close>. The result is the error that ends the RPC, if
  any, and the state.
\<close>

fun processData ::
  "Deps \<Rightarrow> SinkerHandler \<Rightarrow> BlockScopedData list \<Rightarrow> St \<Rightarrow> error option \<times> St" where
  "processData deps h [] st = (None, st)"
| "processData deps h (blockScopedData # rest) st =
     (case NewCursor deps (bsdCursor blockScopedData) of
        Inl err \<Rightarrow> (Some (invalidCursor err), st)
      | Inr currentCursor \<Rightarrow>
          (let isLive = (case livenessChecker (sinker st) of
                           None \<Rightarrow> None
                         | Some isLiveFn \<Rightarrow> Some (isLiveFn (bsdClock blockScopedData)));
               res = handleBlockScopedData h (events st) blockScopedData isLive currentCursor;
               st1 = emit (HandleBlockScopedData blockScopedData isLive currentCursor) st
           in case res of
                Some err \<Rightarrow> (Some (Wrapf ''handle BlockScopedData message at block'' err), st1)
              | None \<Rightarrow> processData deps h rest st1))"

text \<open>
  The branches of the type switch. Each gives the error that ends the RPC (if any),
  the active cursor and the state.
\<close>

definition handleBlockData ::
  "Deps \<Rightarrow> SinkerHandler \<Rightarrow> BlockScopedData \<Rightarrow> Cursor option \<Rightarrow> St
    \<Rightarrow> error option \<times> Cursor option \<times> St" where
  "handleBlockData deps h d activeCursor st =
     (let st1 = traceLog ''received response BlockScopedData'' st;
          st2 = st1\<lparr>metrics := (metrics st1)\<lparr>
                  HeadBlockNumber := clockNumber (bsdClock d),
                  DataMessageCount := DataMessageCount (metrics st1) + 1,
                  BackprocessingCompletion := 1\<rparr>\<rparr>
      in case NewCursor deps (bsdCursor d) of
           Inl err \<Rightarrow> (Some (invalidCursor err), activeCursor, st2)
         | Inr cursor \<Rightarrow>
             (case buffer (sinker st2) of
                None \<Rightarrow>
                  (case processData deps h [d] st2 of (res, st3) \<Rightarrow> (res, Some cursor, st3))
              | Some b \<Rightarrow>
                  (case bufferHandleBlockScopedData deps b d of
                     Inl err \<Rightarrow> (Some (Wrapf ''buffer add block data'' err), Some cursor, st2)
                   | Inr (dataToProcess, b') \<Rightarrow>
                       (case processData deps h dataToProcess
                               (st2\<lparr>sinker := (sinker st2)\<lparr>buffer := Some b'\<rparr>\<rparr>) of
                          (res, st3) \<Rightarrow> (res, Some cursor, st3)))))"

definition handleUndoSignal ::
  "Deps \<Rightarrow> SinkerHandler \<Rightarrow> BlockUndoSignal \<Rightarrow> Cursor option \<Rightarrow> St
    \<Rightarrow> error option \<times> Cursor option \<times> St" where
  "handleUndoSignal deps h undoSignal activeCursor st =
     (let st1 = traceLog ''received response BlockUndoSignal'' st
      in case NewCursor deps (lastValidCursor undoSignal) of
           Inl err \<Rightarrow> (Some (invalidCursor err), activeCursor, st1)
         | Inr cursor \<Rightarrow>
             (let st2 = st1\<lparr>metrics := (metrics st1)\<lparr>
                          UndoMessageCount := UndoMessageCount (metrics st1) + 1,
                          HeadBlockNumber := refNumber (lastValidBlock undoSignal)\<rparr>\<rparr>
              in case buffer (sinker st2) of
                   None \<Rightarrow>
                     (let res = handleBlockUndoSignal h (events st2) undoSignal cursor;
                          st3 = emit (HandleBlockUndoSignal undoSignal cursor) st2
                      in case res of
                           Some err \<Rightarrow> (Some (Wrapf ''handle BlockUndoSignal'' err), Some cursor, st3)
                         | None \<Rightarrow> (None, Some cursor, st3))
                 | Some b \<Rightarrow>
                     (case bufferHandleBlockUndoSignal deps b undoSignal of
                        Inl err \<Rightarrow> (Some (Wrapf ''buffer undo block'' err), Some cursor, st2)
                      | Inr b' \<Rightarrow>
                          (None, Some cursor,
                           st2\<lparr>sinker := (sinker st2)\<lparr>buffer := Some b'\<rparr>\<rparr>))))"

definition handleSession :: "SessionInit \<Rightarrow> St \<Rightarrow> St" where
  "handleSession session st =
     (let st1 = emit (Log Info ''session initialized with remote endpoint'') st
      in st1\<lparr>sinker := (sinker st1)\<lparr>
             requestActiveStartBlock := resolvedStartBlock session\<rparr>\<rparr>)"

fun handleResponse ::
  "Deps \<Rightarrow> SinkerHandler \<Rightarrow> Response \<Rightarrow> Cursor option \<Rightarrow> St
    \<Rightarrow> error option \<times> Cursor option \<times> St" where
  "handleResponse deps h (Response_Progress msg) activeCursor st =
     (None, activeCursor, handleProgress msg st)"
| "handleResponse deps h (Response_BlockScopedData d) activeCursor st =
     handleBlockData deps h d activeCursor st"
| "handleResponse deps h (Response_BlockUndoSignal u) activeCursor st =
     handleUndoSignal deps h u activeCursor st"
| "handleResponse deps h Response_DebugSnapshotData activeCursor st =
     (None, activeCursor,
      emit (Log Warn ''received debug snapshot message, there is no reason to receive those here'') st)"
| "handleResponse deps h Response_DebugSnapshotComplete activeCursor st =
     (None, activeCursor,
      emit (Log Warn ''received debug snapshot message, there is no reason to receive those here'') st)"
| "handleResponse deps h (Response_Session session) activeCursor st =
     (None, activeCursor, handleSession session st)"
| "handleResponse deps h UnknownMessage activeCursor st =
     (None, activeCursor,
      (emit (Log Info ''received unknown type of message'') st)\<lparr>metrics := (metrics st)\<lparr>
          UnknownMessageCount := UnknownMessageCount (metrics st) + 1\<rparr>\<rparr>)"

text \<open>
  The \<^verbatim>\<open>for\<close> loop of \<^verbatim>\<open>doRequest\<close> over the messages still to come. Each round
  asks \<^verbatim>\<open>s.tracer.Enabled()\<close> first (a nil tracer panics there), then receives.
\<close>

fun recvLoop ::
  "Deps \<Rightarrow> SinkerHandler \<Rightarrow> error option \<Rightarrow> Response list \<Rightarrow> Cursor option \<Rightarrow> bool \<Rightarrow> St
    \<Rightarrow> (Cursor option \<times> bool \<times> error) exec \<times> St" where
  "recvLoop deps h final [] activeCursor receivedMessage st =
     (case tracer (sinker st) of
        None \<Rightarrow> (Panics, st)
      | Some enabled \<Rightarrow>
          (let st1 = traceLog ''substreams waiting to receive message'' st
           in case final of
                None \<Rightarrow> (Hangs, st1)
              | Some err \<Rightarrow> (Returns (activeCursor, receivedMessage, recvFailure err), st1)))"
| "recvLoop deps h final (resp # rest) activeCursor receivedMessage st =
     (case tracer (sinker st) of
        None \<Rightarrow> (Panics, st)
      | Some enabled \<Rightarrow>
          (case handleResponse deps h resp activeCursor
                  (traceLog ''substreams waiting to receive message'' st) of
             (Some err, activeCursor', st') \<Rightarrow> (Returns (activeCursor', True, err), st')
           | (None, activeCursor', st') \<Rightarrow> recvLoop deps h final rest activeCursor' True st'))"

definition doRequest ::
  "Deps \<Rightarrow> SinkerHandler \<Rightarrow> Session \<Rightarrow> Cursor option \<Rightarrow> Request \<Rightarrow> St
    \<Rightarrow> (Cursor option \<times> bool \<times> error) exec \<times> St" where
  "doRequest deps h sess activeCursor req st =
     (let st1 = emit (Blocks req) (emit (Log Debug ''launching substreams request'') st)
      in case blocksError sess of
           Some err \<Rightarrow>
             (Returns (activeCursor, False,
                retryable (Wrapf ''call sf.substreams.rpc.v2.Stream/Blocks'' err)), st1)
         | None \<Rightarrow> recvLoop deps h (recvError sess) (responses sess) activeCursor False st1)"

section \<open>The retry loop: \<^verbatim>\<open>run\<close>\<close>

text \<open>
  \<^verbatim>\<open>adjustedEndBlock\<close>. \<^verbatim>\<open>uint64(s.buffer.Capacity())\<close> converts a Go \<^verbatim>\<open>int\<close>, and
  the sum wraps around at \<open>2 ^ 64\<close>.
\<close>

definition adjustedEndBlock :: "Sinker \<Rightarrow> uint64" where
  "adjustedEndBlock s =
     (case blockRange s of
        None \<Rightarrow> 0
      | Some r \<Rightarrow>
          (case endBlock r of
             None \<Rightarrow> 0
           | Some e \<Rightarrow>
               (case buffer s of
                  None \<Rightarrow> e
                | Some b \<Rightarrow> e + word_of_int (bufferCapacity b))))"

text \<open>The debug line \<^verbatim>\<open>adjustedEndBlock\<close> writes on the way.\<close>

definition adjustedEndBlockLog :: "St \<Rightarrow> St" where
  "adjustedEndBlockLog st =
     (case blockRange (sinker st) of
        None \<Rightarrow> st
      | Some r \<Rightarrow>
          (case endBlock r of
             None \<Rightarrow> st
           | Some e \<Rightarrow>
               (case buffer (sinker st) of
                  None \<Rightarrow> st
                | Some b \<Rightarrow> emit (Log Debug ''adjusted request end block for buffer'') st)))"

text \<open>
  The stop block of the older copy of the sinker (\<^verbatim>\<open>adjustStreamRange\<close> and the
  lines of its \<^verbatim>\<open>run\<close> that start from \<^verbatim>\<open>math.MaxUint64\<close>).
\<close>

definition legacyAdjustStreamRange :: "Sinker \<Rightarrow> Range option" where
  "legacyAdjustStreamRange s =
     (case (buffer s, blockRange s) of
        (Some b, Some r) \<Rightarrow>
          (case endBlock r of
             Some e \<Rightarrow>
               Some \<lparr>startBlock = startBlock r,
                     endBlock = Some (e + word_of_int (bufferCapacity b))\<rparr>
           | None \<Rightarrow> blockRange s)
      | _ \<Rightarrow> blockRange s)"

definition legacyStopBlock :: "Sinker \<Rightarrow> uint64" where
  "legacyStopBlock s =
     (case legacyAdjustStreamRange s of
        None \<Rightarrow> - 1
      | Some r \<Rightarrow> (case endBlock r of None \<Rightarrow> - 1 | Some e \<Rightarrow> e))"

text \<open>
  The policy \<^verbatim>\<open>run\<close> works with: \<^verbatim>\<open>s.backOff\<close>, under
  \<^verbatim>\<open>backoff.WithMaxRetries(backOff, 15)\<close> unless \<^verbatim>\<open>infiniteRetry\<close>, under
  \<^verbatim>\<open>backoff.WithContext(backOff, ctx)\<close>. These wrappers are library code
  (\<^verbatim>\<open>cenkalti/backoff/v4\<close>): \<^verbatim>\<open>WithContext\<close> answers \<^verbatim>\<open>Stop\<close> once the context is done;
  \<^verbatim>\<open>WithMaxRetries\<close> answers \<^verbatim>\<open>Stop\<close> when \<^verbatim>\<open>maxTries <= numTries\<close> and counts the call
  otherwise; \<^verbatim>\<open>Reset\<close> sets \<^verbatim>\<open>numTries\<close> to 0 and resets the delegate.
\<close>

record RunBackOff =
  delegate :: BackOff
  maxTries :: "nat option"
  numTries :: nat

definition nextBackOff :: "bool \<Rightarrow> RunBackOff \<Rightarrow> nat option \<times> RunBackOff" where
  "nextBackOff done b =
     (if done then (None, b)
      else case maxTries b of
             Some m \<Rightarrow>
               if m \<le> numTries b then (None, b)
               else (NextBackOff (delegate b),
                     b\<lparr>delegate := afterNext (delegate b), numTries := numTries b + 1\<rparr>)
           | None \<Rightarrow> (NextBackOff (delegate b), b\<lparr>delegate := afterNext (delegate b)\<rparr>))"

definition resetBackOff :: "RunBackOff \<Rightarrow> RunBackOff" where
  "resetBackOff b = b\<lparr>delegate := afterReset (delegate b), numTries := 0\<rparr>"

definition mkRequest :: "Deps \<Rightarrow> Sinker \<Rightarrow> uint64 \<Rightarrow> uint64 \<Rightarrow> Cursor option \<Rightarrow> Request" where
  "mkRequest deps s startBlk stopBlk activeCursor =
     \<lparr>StartBlockNum = startBlk,
      StopBlockNum = stopBlk,
      StartCursor = cursorString deps activeCursor,
      FinalBlocksOnly = finalBlocksOnly s,
      OutputModule = moduleName (outputModule s),
      ProductionMode = (mode s = SubstreamsModeProduction)\<rparr>"

text \<open>
  What \<^verbatim>\<open>run\<close> does with the result of one \<^verbatim>\<open>doRequest\<close>: the reset of the back-off
  policy, then the \<^verbatim>\<open>if err != nil\<close> block. \<open>Inl\<close> is a \<^verbatim>\<open>return\<close> of \<^verbatim>\<open>run\<close>, \<open>Inr\<close>
  the policy to go round the loop again with. (\<^verbatim>\<open>doRequest\<close> has no return with a
  nil error.)
\<close>

definition afterRequest ::
  "Session \<Rightarrow> RunBackOff \<Rightarrow> Cursor option \<Rightarrow> bool \<Rightarrow> error \<Rightarrow> St
    \<Rightarrow> ((Cursor option \<times> error option) + RunBackOff) \<times> St" where
  "afterRequest sess bo activeCursor receivedMessage err st =
     (let bo1 = (if receivedMessage then resetBackOff bo else bo);
          st1 = (if receivedMessage then emit BackOffReset st else st)
      in if isEOF err then (Inl (activeCursor, None), st1)
         else if ctxErr sess = Some ContextCanceled
         then (Inl (activeCursor, None),
               emit (Log Debug
                 ''substreams encountered an error but we are currently terminating, ignoring it'')
                 st1)
         else
           (let st2 = st1\<lparr>metrics := (metrics st1)\<lparr>
                        SubstreamsErrorCount := SubstreamsErrorCount (metrics st1) + 1\<rparr>\<rparr>
            in case asRetryable err of
                 Some cause \<Rightarrow>
                   (let st3 = emit (Log Error ''substreams encountered a retryable error'') st2
                    in case nextBackOff (ctxDone sess) bo1 of
                         (None, bo2) \<Rightarrow>
                           (Inl (activeCursor, Some (Wrap2 ErrBackOffExpired cause)), st3)
                       | (Some sleepFor, bo2) \<Rightarrow>
                           (Inr bo2,
                            emit (Sleep sleepFor)
                              (emit (Log Info ''sleeping before re-connecting'') st3)))
               | None \<Rightarrow> (Inl (activeCursor, Some err), st2)))"

text \<open>
  The \<^verbatim>\<open>for\<close> loop of \<^verbatim>\<open>run\<close>, one RPC for each round. When the sessions that are
  given run out, the loop is still running.
\<close>

fun runLoop ::
  "Deps \<Rightarrow> SinkerHandler \<Rightarrow> uint64 \<Rightarrow> uint64 \<Rightarrow> RunBackOff \<Rightarrow> Cursor option \<Rightarrow> St
    \<Rightarrow> Session list \<Rightarrow> (Cursor option \<times> error option) exec \<times> St" where
  "runLoop deps h startBlk stopBlk bo activeCursor st [] = (Hangs, st)"
| "runLoop deps h startBlk stopBlk bo activeCursor st (sess # rest) =
     (case doRequest deps h sess activeCursor
             (mkRequest deps (sinker st) startBlk stopBlk activeCursor) st of
        (Returns (activeCursor', receivedMessage, err), st1) \<Rightarrow>
          (case afterRequest sess bo activeCursor' receivedMessage err st1 of
             (Inl res, st2) \<Rightarrow> (Returns res, st2)
           | (Inr bo', st2) \<Rightarrow> runLoop deps h startBlk stopBlk bo' activeCursor' st2 rest)
      | (Panics, st1) \<Rightarrow> (Panics, st1)
      | (Hangs, st1) \<Rightarrow> (Hangs, st1)
      | (Exits, st1) \<Rightarrow> (Exits, st1))"

text \<open>
  \<^verbatim>\<open>parseHeaders\<close> leaves the process (\<^verbatim>\<open>log.Fatalf\<close>) on a header that
  \<^verbatim>\<open>strings.Split(header, ":")\<close> does not cut in two, that is one without exactly one
  colon. The headers themselves only go into the metadata of the RPC and are not
  modelled further.
\<close>

definition malformedHeader :: "string \<Rightarrow> bool" where
  "malformedHeader header = (length (filter (\<lambda>c. c = CHR '':'') header) \<noteq> 1)"

text \<open>The caller's context and the server, for a whole run.\<close>

record Env =
  sessions :: "Session list"
  ctxErrAtShutdown :: "ctxError option"

text \<open>
  \<^verbatim>\<open>run\<close>. \<^verbatim>\<open>s.BlockRange().StartBlock()\<close> reads a field of the range, a nil
  dereference when no range is configured.
\<close>

definition run ::
  "Deps \<Rightarrow> SinkerHandler \<Rightarrow> Env \<Rightarrow> Cursor option \<Rightarrow> St
    \<Rightarrow> (Cursor option \<times> error option) exec \<times> St" where
  "run deps h env cursor st =
     (case newSubstreamsClientError deps of
        Some err \<Rightarrow> (Returns (cursor, Some (Wrapf ''new substreams client'' err)), st)
      | None \<Rightarrow>
          if list_ex malformedHeader (extraHeaders (sinker st))
          then (Exits, st)
          else
            (let st1 = emit (Log Debug ''configured default backoff'') st;
                 st2 = (if infiniteRetry (sinker st) then st1
                        else emit (Log Debug ''configured backoff to stop after 15 retries'') st1);
                 bo = \<lparr>delegate = backOff (sinker st),
                       maxTries = (if infiniteRetry (sinker st) then None else Some 15),
                       numTries = 0\<rparr>
             in case blockRange (sinker st) of
                  None \<Rightarrow> (Panics, st2)
                | Some r \<Rightarrow>
                    runLoop deps h (startBlock r) (adjustedEndBlock (sinker st)) bo cursor
                      (adjustedEndBlockLog st2) (sessions env)))"

section \<open>\<^verbatim>\<open>Run\<close>\<close>

text \<open>
  \<^verbatim>\<open>Run\<close>, from its first log line on. The statistics ticker and the termination
  hooks it installs first are not modelled; \<^verbatim>\<open>s.Shutdown(err)\<close> is the event
  \<open>Shutdown err\<close>.
\<close>

definition shutdown :: "Env \<Rightarrow> error option \<Rightarrow> St \<Rightarrow> St" where
  "shutdown env err st =
     emit (Shutdown (if ctxErrAtShutdown env = Some ContextCanceled then None else err)) st"

definition Run :: "Deps \<Rightarrow> SinkerHandler \<Rightarrow> Env \<Rightarrow> Cursor option \<Rightarrow> St \<Rightarrow> unit exec \<times> St" where
  "Run deps h env cursor st =
     (let st0 = adjustedEndBlockLog st;
          st0' = (if adjustedEndBlock (sinker st) \<noteq> 0 then adjustedEndBlockLog st0 else st0)
      in case run deps h env cursor (emit (Log Info ''starting sinker'') st0') of
           (Returns (lastCursor, None), st1) \<Rightarrow>
             (let st2 = emit (Log Info ''substreams ended correctly, reached your stop block'') st1
              in case handleBlockRangeCompletion h of
                   Some complete \<Rightarrow>
                     (let st3 = emit (Log Info
                            ''substreams handler has completion callback defined, calling it'') st2;
                          res = complete (events st3) lastCursor;
                          st4 = emit (HandleBlockRangeCompletion lastCursor) st3
                      in case res of
                           Some err \<Rightarrow>
                             (Returns (),
                              emit (Shutdown
                                (Some (Wrapf ''sinker completion handler error'' err))) st4)
                         | None \<Rightarrow> (Returns (), shutdown env None st4))
                 | None \<Rightarrow> (Returns (), shutdown env None st2))
         | (Returns (lastCursor, Some err), st1) \<Rightarrow> (Returns (), shutdown env (Some err) st1)
         | (Panics, st1) \<Rightarrow> (Panics, st1)
         | (Hangs, st1) \<Rightarrow> (Hangs, st1)
         | (Exits, st1) \<Rightarrow> (Exits, st1))"

section \<open>The constructor \<^verbatim>\<open>New\<close>\<close>

text \<open>
  An \<^verbatim>\<open>Option\<close> is a function that \<^verbatim>\<open>New\<close> applies to the sinker it builds
  (\<^verbatim>\<open>opt(s)\<close>).
\<close>

type_synonym Option = "Sinker \<Rightarrow> Sinker"




definition WithInfiniteRetry :: Option where
  "WithInfiniteRetry s = s\<lparr>infiniteRetry := True\<rparr>"

definition WithRetryBackOff :: "BackOff \<Rightarrow> Option" where
  "WithRetryBackOff b s = s\<lparr>backOff := b\<rparr>"

definition WithLivenessChecker :: "(Clock \<Rightarrow> bool) \<Rightarrow> Option" where
  "WithLivenessChecker isLiveFn s = s\<lparr>livenessChecker := Some isLiveFn\<rparr>"

definition WithExtraHeaders :: "string list \<Rightarrow> Option" where
  "WithExtraHeaders hs s = s\<lparr>extraHeaders := hs\<rparr>"

text \<open>\<^verbatim>\<open>hex.EncodeToString\<close>.\<close>

definition hexDigit :: "nat \<Rightarrow> char" where
  "hexDigit n = ''0123456789abcdef'' ! n"

definition hexEncode :: "8 word list \<Rightarrow> string" where
  "hexEncode bs = concat (map (\<lambda>b. [hexDigit (unat b div 16), hexDigit (unat b mod 16)]) bs)"

text \<open>
  \<^verbatim>\<open>New\<close>. Its pointer arguments may be nil (\<open>None\<close>). \<open>exponential\<close> is the policy
  \<^verbatim>\<open>backoff.NewExponentialBackOff()\<close> gives, with \<^verbatim>\<open>MaxElapsedTime\<close> set to 0. The
  struct is built, the options are applied in order and the undo buffer is dropped
  when final blocks only are asked for. The log line \<^verbatim>\<open>sinker configured\<close> then
  reads \<^verbatim>\<open>s.pkg.Modules.Modules\<close>, \<^verbatim>\<open>s.outputModule.Name\<close> and
  \<^verbatim>\<open>s.outputModule.Output.Type\<close> and calls the logger: a nil package, a package without
  modules, a nil output module, an output module without output or a nil logger
  is a nil dereference there. The two log lines themselves are not recorded.
\<close>

definition New ::
  "SubstreamsMode \<Rightarrow> Package option \<Rightarrow> Module option \<Rightarrow> 8 word list \<Rightarrow> ClientConfig option
    \<Rightarrow> Logger option \<Rightarrow> bool option \<Rightarrow> BackOff \<Rightarrow> Option list
    \<Rightarrow> (Sinker \<times> error option) exec" where
  "New mode' pkg' outputModule' hash clientConfig' logger' tracer' exponential opts =
     (case (pkg', outputModule', logger') of
        (Some p, Some m, Some l) \<Rightarrow>
          (if pkgModules p = None \<or> moduleOutput m = None then Panics
           else
             (let s = foldl (\<lambda>s opt. opt s)
                        \<lparr>mode = mode',
                         pkg = p,
                         outputModule = m,
                         outputModuleHash = hexEncode hash,
                         clientConfig = clientConfig',
                         logger = l,
                         tracer = tracer',
                         backOff = exponential,
                         buffer = None,
                         blockRange = None,
                         infiniteRetry = False,
                         finalBlocksOnly = False,
                         livenessChecker = None,
                         extraHeaders = [],
                         requestActiveStartBlock = 0\<rparr> opts
              in Returns
                   (if finalBlocksOnly s \<and> buffer s \<noteq> None then s\<lparr>buffer := None\<rparr> else s,
                    None)))
      | _ \<Rightarrow> Panics)"

text \<open>The state of the process when a sinker starts: no metric set, nothing done yet.\<close>

definition initialMetrics :: Metrics where
  "initialMetrics =
     \<lparr>ProgressMessageLastBlock = Map.empty,
      ProgressMessageRunningJobs = Map.empty,
      ProgressMessageLastContiguousBlock = Map.empty,
      ProgressMessageCount = 0,
      ProgressMessageTotalProcessedBlocks = 0,
      HeadBlockNumber = 0,
      DataMessageCount = 0,
      UndoMessageCount = 0,
      UnknownMessageCount = 0,
      BackprocessingCompletion = 0,
      SubstreamsErrorCount = 0\<rparr>"

definition initialSt :: "Sinker \<Rightarrow> St" where
  "initialSt s = \<lparr>sinker = s, metrics = initialMetrics, events = []\<rparr>"

section \<open>Concrete instances\<close>

text \<open>
  Instances of the collaborators on which the model is run in the examples below: a
  policy that always answers the same sleep, a cursor parser that accepts every
  string, an undo buffer that keeps every block, a handler that accepts everything
  (with or without a completion callback), and a sinker in production mode on the
  range from block 100 to block 105.
\<close>

primcorec constantBackOff :: "nat \<Rightarrow> BackOff" where
  "constantBackOff d = BackOff (Some d) (constantBackOff d) (constantBackOff d)"

definition exampleDeps :: Deps where
  "exampleDeps =
     \<lparr>NewCursor = (\<lambda>c. Inr (Cursor c)),
      cursorString = (\<lambda>c. case c of None \<Rightarrow> [] | Some (Cursor x) \<Rightarrow> x),
      bufferHandleBlockScopedData =
        (\<lambda>b d. Inr ([], b\<lparr>bufferBlocks := bufferBlocks b @ [d]\<rparr>)),
      bufferHandleBlockUndoSignal = (\<lambda>b u. Inr b),
      newSubstreamsClientError = None\<rparr>"

definition acceptingHandler ::
  "(event list \<Rightarrow> Cursor option \<Rightarrow> error option) option \<Rightarrow> SinkerHandler" where
  "acceptingHandler complete =
     \<lparr>handleBlockScopedData = (\<lambda>evs d isLive c. None),
      handleBlockUndoSignal = (\<lambda>evs u c. None),
      handleBlockRangeCompletion = complete\<rparr>"

definition exampleSinker :: Sinker where
  "exampleSinker =
     \<lparr>mode = SubstreamsModeProduction,
      pkg = \<lparr>pkgModules = Some []\<rparr>,
      outputModule = \<lparr>moduleName = ''map_out'', moduleOutput = Some \<lparr>outputType = ''proto:out''\<rparr>\<rparr>,
      outputModuleHash = [],
      clientConfig = None,
      logger = \<lparr>debugEnabled = False\<rparr>,
      tracer = Some False,
      backOff = constantBackOff 500,
      buffer = None,
      blockRange = Some \<lparr>startBlock = 100, endBlock = Some 105\<rparr>,
      infiniteRetry = False,
      finalBlocksOnly = False,
      livenessChecker = None,
      extraHeaders = [],
      requestActiveStartBlock = 0\<rparr>"

definition blockAt :: "uint64 \<Rightarrow> string \<Rightarrow> BlockScopedData" where
  "blockAt n c =
     \<lparr>bsdClock = \<lparr>clockId = c, clockNumber = n, clockTimestamp = 0\<rparr>,
      bsdCursor = c,
      bsdOutputName = ''map_out'',
      bsdFinalBlockHeight = 0\<rparr>"

section \<open>Reading the events of a run\<close>




definition exampleUndo :: BlockUndoSignal where
  "exampleUndo =
     \<lparr>lastValidBlock = \<lparr>refId = ''b99'', refNumber = 99\<rparr>, lastValidCursor = ''c99''\<rparr>"

definition serverSession :: "Response list \<Rightarrow> error \<Rightarrow> Session" where
  "serverSession msgs err =
     \<lparr>blocksError = None, responses = msgs, recvError = Some err,
      ctxErr = None, ctxDone = False\<rparr>"

text \<open>
  The start block the server resolved last in a list of messages: the
  \<^verbatim>\<open>resolved_start_block\<close> of the last \<^verbatim>\<open>Session\<close> message, or the given value when there
  is none.
\<close>

fun lastResolvedStartBlock :: "Response list \<Rightarrow> uint64 \<Rightarrow> uint64" where
  "lastResolvedStartBlock [] v = v"
| "lastResolvedStartBlock (Response_Session session # rest) v =
     lastResolvedStartBlock rest (resolvedStartBlock session)"
| "lastResolvedStartBlock (r # rest) v = lastResolvedStartBlock rest v"




fun isCompletionCall :: "event \<Rightarrow> bool" where
  "isCompletionCall (HandleBlockRangeCompletion c) = True"
| "isCompletionCall e = False"

text \<open>
  A run that the caller cancels: the server has sent block 100 of the range from
  100 to 105 when the context is cancelled, \<^verbatim>\<open>Recv\<close> fails with the gRPC code
  \<^verbatim>\<open>Canceled\<close>, and \<^verbatim>\<open>ctx.Err()\<close> is \<^verbatim>\<open>context.Canceled\<close> from then on.
\<close>

definition canceledEnv :: Env where
  "canceledEnv =
     \<lparr>sessions =
        [\<lparr>blocksError = None,
          responses = [Response_BlockScopedData (blockAt 100 ''c100'')],
          recvError = Some (GRPCError Canceled ''context canceled''),
          ctxErr = Some ContextCanceled,
          ctxDone = True\<rparr>],
      ctxErrAtShutdown = Some ContextCanceled\<rparr>"

text \<open>
  The configuration of a sinker: all its fields but the two that a run writes, the
  undo buffer and \<^verbatim>\<open>requestActiveStartBlock\<close>.
\<close>

definition configOf :: "Sinker \<Rightarrow> Sinker" where
  "configOf s = s\<lparr>buffer := None, requestActiveStartBlock := 0\<rparr>"




section \<open>Events: what each function may add\<close>

text \<open>
  Every function of the sinker only appends to the events. The lemmas of this
  section carry a property \<open>P\<close> of all events through each function, given that \<open>P\<close>
  holds for the events the function can add.
\<close>

lemma events_emit [simp]: "events (emit e st) = events st @ [e]"
  by (simp add: emit_def)

lemma sinker_emit [simp]: "sinker (emit e st) = sinker st"
  by (simp add: emit_def)

lemma metrics_emit [simp]: "metrics (emit e st) = metrics st"
  by (simp add: emit_def)

lemma sinker_traceLog [simp]: "sinker (traceLog m st) = sinker st"
  by (simp add: traceLog_def sinker_emit)

lemma traceLog_events:
  assumes "list_all P (events st)" and "\<And>l m. P (Log l m)"
  shows "list_all P (events (traceLog m st))"
  using assms by (simp add: traceLog_def events_emit)

lemma handleProgress_events:
  assumes "list_all P (events st)" and "\<And>l m. P (Log l m)"
  shows "list_all P (events (handleProgress msg st))"
  using assms by (simp add: handleProgress_def events_emit Let_def split: prod.splits)

lemma processData_events:
  assumes "list_all P (events st)" and "\<And>d i c. P (HandleBlockScopedData d i c)"
  shows "list_all P (events (snd (processData deps h ds st)))"
  using assms
  by (induction ds arbitrary: st) (simp_all add: events_emit Let_def split: sum.splits option.splits)

lemma handleBlockData_events:
  assumes "list_all P (events st)" and "\<And>l m. P (Log l m)"
    and "\<And>d i c. P (HandleBlockScopedData d i c)"
  shows "list_all P (events (snd (snd (handleBlockData deps h d ac st))))"
  using assms
  by (simp add: handleBlockData_def Let_def split_beta traceLog_events processData_events
        split: sum.splits option.splits)

lemma handleUndoSignal_events:
  assumes "list_all P (events st)" and "\<And>l m. P (Log l m)"
    and "\<And>c. P (HandleBlockUndoSignal u c)"
  shows "list_all P (events (snd (snd (handleUndoSignal deps h u ac st))))"
  using assms
  by (simp add: handleUndoSignal_def Let_def split_beta traceLog_events events_emit
        split: sum.splits option.splits)

lemma handleResponse_events:
  assumes "list_all P (events st)" and "\<And>l m. P (Log l m)"
    and "\<And>d i c. P (HandleBlockScopedData d i c)"
    and "\<And>u c. r = Response_BlockUndoSignal u \<Longrightarrow> P (HandleBlockUndoSignal u c)"
  shows "list_all P (events (snd (snd (handleResponse deps h r ac st))))"
  using assms
  by (cases r)
     (simp_all add: handleProgress_events handleBlockData_events handleUndoSignal_events
        handleSession_def events_emit Let_def)

lemma recvLoop_events:
  assumes "list_all P (events st)" and "\<And>l m. P (Log l m)"
    and "\<And>d i c. P (HandleBlockScopedData d i c)"
    and "\<And>u c. Response_BlockUndoSignal u \<in> set msgs \<Longrightarrow> P (HandleBlockUndoSignal u c)"
  shows "list_all P (events (snd (recvLoop deps h final msgs ac rcv st)))"
  using assms
proof (induction msgs arbitrary: st ac rcv)
  case Nil
  then show ?case
    by (simp add: traceLog_events Let_def split: option.splits)
next
  case (Cons r rest)
  let ?st0 = "traceLog ''substreams waiting to receive message'' st"
  have st0: "list_all P (events ?st0)"
    using Cons.prems(1,2) by (rule traceLog_events)
  have step: "list_all P (events (snd (snd (handleResponse deps h r ac ?st0))))"
    using st0 Cons.prems(2,3) by (rule handleResponse_events) (simp add: Cons.prems(4))
  show ?case
  proof (cases "tracer (sinker st)")
    case None
    then show ?thesis using Cons.prems(1) by simp
  next
    case (Some en)
    obtain res ac' st' where hr: "handleResponse deps h r ac ?st0 = (res, ac', st')"
      by (cases "handleResponse deps h r ac ?st0") auto
    have st': "list_all P (events st')" using step hr by simp
    show ?thesis
    proof (cases res)
      case None
      have "list_all P (events (snd (recvLoop deps h final rest ac' True st')))"
        using st' Cons.prems(2,3) by (rule Cons.IH) (simp add: Cons.prems(4))
      then show ?thesis using Some hr None by simp
    next
      case (Some err)
      then show ?thesis using \<open>tracer (sinker st) = Some en\<close> hr st' by simp
    qed
  qed
qed

lemma doRequest_events:
  assumes "list_all P (events st)" and "\<And>l m. P (Log l m)"
    and "\<And>d i c. P (HandleBlockScopedData d i c)"
    and "\<And>u c. Response_BlockUndoSignal u \<in> set (responses sess) \<Longrightarrow> P (HandleBlockUndoSignal u c)"
    and "P (Blocks req)"
  shows "list_all P (events (snd (doRequest deps h sess ac req st)))"
proof (cases "blocksError sess")
  case None
  have "list_all P (events (emit (Blocks req) (emit (Log Debug ''launching substreams request'') st)))"
    using assms(1,2,5) by (simp add: events_emit)
  then have "list_all P (events (snd (recvLoop deps h (recvError sess) (responses sess) ac False
      (emit (Blocks req) (emit (Log Debug ''launching substreams request'') st)))))"
    using assms(2,3,4) by (rule recvLoop_events)
  then show ?thesis using None by (simp add: doRequest_def Let_def)
next
  case (Some err)
  then show ?thesis using assms(1,2,5) by (simp add: doRequest_def Let_def events_emit)
qed

lemma afterRequest_events:
  assumes "list_all P (events st)" and "\<And>l m. P (Log l m)"
    and "P BackOffReset" and "\<And>d. P (Sleep d)"
  shows "list_all P (events (snd (afterRequest sess bo ac rcv err st)))"
  using assms
  by (simp add: afterRequest_def Let_def events_emit split_beta split: option.splits)

text \<open>
  A run writes only the undo buffer and \<^verbatim>\<open>requestActiveStartBlock\<close> of the sinker, and
  it never takes an event back.
\<close>

lemma sinker_handleProgress [simp]: "sinker (handleProgress msg st) = sinker st"
  by (simp add: handleProgress_def Let_def split: prod.splits)

lemma sinker_processData [simp]: "sinker (snd (processData deps h ds st)) = sinker st"
  by (induction ds arbitrary: st) (simp_all add: Let_def split: sum.splits option.splits)

lemma configOf_buffer [simp]: "configOf (s\<lparr>buffer := b\<rparr>) = configOf s"
  by (simp add: configOf_def)

lemma configOf_active [simp]: "configOf (s\<lparr>requestActiveStartBlock := a\<rparr>) = configOf s"
  by (simp add: configOf_def)


lemma config_handleResponse:
  "configOf (sinker (snd (snd (handleResponse deps h r ac st)))) = configOf (sinker st)"
  by (cases r)
     (simp_all add: handleBlockData_def handleUndoSignal_def handleSession_def Let_def split_beta
        split: sum.splits option.splits)

lemma config_recvLoop:
  "configOf (sinker (snd (recvLoop deps h final msgs ac rcv st))) = configOf (sinker st)"
proof (induction msgs arbitrary: st ac rcv)
  case Nil
  then show ?case by (simp add: Let_def split: option.splits)
next
  case (Cons r rest)
  let ?st0 = "traceLog ''substreams waiting to receive message'' st"
  obtain res ac' st' where hr: "handleResponse deps h r ac ?st0 = (res, ac', st')"
    by (cases "handleResponse deps h r ac ?st0") auto
  have "configOf (sinker st') = configOf (sinker st)"
    using config_handleResponse [of deps h r ac ?st0] hr by simp
  then show ?case
    using hr Cons.IH [of ac' True st'] by (simp split: option.splits)
qed

lemma config_doRequest:
  "configOf (sinker (snd (doRequest deps h sess ac req st))) = configOf (sinker st)"
  by (simp add: doRequest_def Let_def config_recvLoop split: option.splits)

lemma sinker_afterRequest [simp]:
  "sinker (snd (afterRequest sess bo ac rcv err st)) = sinker st"
  by (simp add: afterRequest_def Let_def split_beta split: option.splits)












lemma runLoop_events:
  assumes "list_all P (events st)" and "\<And>l m. P (Log l m)"
    and "\<And>d i c. P (HandleBlockScopedData d i c)"
    and "\<And>sess u c. sess \<in> set ss \<Longrightarrow> Response_BlockUndoSignal u \<in> set (responses sess)
           \<Longrightarrow> P (HandleBlockUndoSignal u c)"
    and "\<And>s c. configOf s = configOf (sinker st) \<Longrightarrow>
           P (Blocks (mkRequest deps s startBlk stopBlk c))"
    and "P BackOffReset" and "\<And>d. P (Sleep d)"
  shows "list_all P (events (snd (runLoop deps h startBlk stopBlk bo ac st ss)))"
  using assms
proof (induction ss arbitrary: st ac bo)
  case Nil
  then show ?case by simp
next
  case (Cons sess rest)
  let ?req = "mkRequest deps (sinker st) startBlk stopBlk ac"
  have dr: "list_all P (events (snd (doRequest deps h sess ac ?req st)))"
    using Cons.prems(1,2,3)
    by (rule doRequest_events) (auto intro: Cons.prems(4) Cons.prems(5))
  obtain out st1 where d: "doRequest deps h sess ac ?req st = (out, st1)"
    by (cases "doRequest deps h sess ac ?req st") auto
  have st1: "list_all P (events st1)" using dr d by simp
  show ?case
  proof (cases out)
    case (Returns res)
    obtain ac' rcv err where res: "res = (ac', rcv, err)" by (cases res) auto
    obtain nxt st2 where a: "afterRequest sess bo ac' rcv err st1 = (nxt, st2)"
      by (cases "afterRequest sess bo ac' rcv err st1") auto
    have "list_all P (events (snd (afterRequest sess bo ac' rcv err st1)))"
      using st1 Cons.prems(2,6,7) by (rule afterRequest_events)
    then have st2: "list_all P (events st2)" using a by simp
    have "configOf (sinker st1) = configOf (sinker st)"
      using config_doRequest [of deps h sess ac ?req st] d by simp
    moreover have "sinker st2 = sinker st1"
      using sinker_afterRequest [of sess bo ac' rcv err st1] a by simp
    ultimately have c2: "configOf (sinker st2) = configOf (sinker st)" by simp
    show ?thesis
    proof (cases nxt)
      case (Inl r)
      then show ?thesis using d Returns res a st2 by simp
    next
      case (Inr bo')
      have "list_all P (events (snd (runLoop deps h startBlk stopBlk bo' ac' st2 rest)))"
        using st2 Cons.prems(2,3)
        by (rule Cons.IH) (auto intro: Cons.prems(4) Cons.prems(5) simp: c2 Cons.prems(6,7))
      then show ?thesis using d Returns res a Inr by simp
    qed
  qed (use d st1 in simp_all)
qed

lemma adjustedEndBlockLog_events:
  assumes "list_all P (events st)" and "\<And>l m. P (Log l m)"
  shows "list_all P (events (adjustedEndBlockLog st))"
  using assms by (simp add: adjustedEndBlockLog_def split: option.splits)

lemma sinker_adjustedEndBlockLog [simp]: "sinker (adjustedEndBlockLog st) = sinker st"
  by (simp add: adjustedEndBlockLog_def split: option.splits)

lemma run_events:
  assumes "list_all P (events st)" and "\<And>l m. P (Log l m)"
    and "\<And>d i c. P (HandleBlockScopedData d i c)"
    and "\<And>sess u c. sess \<in> set (sessions env) \<Longrightarrow> Response_BlockUndoSignal u \<in> set (responses sess)
           \<Longrightarrow> P (HandleBlockUndoSignal u c)"
    and "\<And>s r c. blockRange (sinker st) = Some r \<Longrightarrow> configOf s = configOf (sinker st) \<Longrightarrow>
           P (Blocks (mkRequest deps s (startBlock r) (adjustedEndBlock (sinker st)) c))"
    and "P BackOffReset" and "\<And>d. P (Sleep d)"
  shows "list_all P (events (snd (run deps h env cursor st)))"
proof (cases "newSubstreamsClientError deps = None \<and> \<not> list_ex malformedHeader (extraHeaders (sinker st))")
  case False
  then show ?thesis using assms(1) by (auto simp: run_def split: option.splits)
next
  case True
  show ?thesis
  proof (cases "blockRange (sinker st)")
    case None
    then show ?thesis using True assms(1,2) by (simp add: run_def Let_def)
  next
    case (Some r)
    let ?st2 = "adjustedEndBlockLog (if infiniteRetry (sinker st)
        then emit (Log Debug ''configured default backoff'') st
        else emit (Log Debug ''configured backoff to stop after 15 retries'')
               (emit (Log Debug ''configured default backoff'') st))"
    have "list_all P (events ?st2)"
      by (rule adjustedEndBlockLog_events) (simp_all add: assms(1,2))
    then have "list_all P (events (snd (runLoop deps h (startBlock r) (adjustedEndBlock (sinker st))
        \<lparr>delegate = backOff (sinker st),
         maxTries = (if infiniteRetry (sinker st) then None else Some 15),
         numTries = 0\<rparr> cursor ?st2 (sessions env))))"
      using assms(2,3)
      by (rule runLoop_events) (simp_all add: assms(4,6,7) assms(5) [OF Some])
    then show ?thesis using True Some by (simp add: run_def Let_def)
  qed
qed







section \<open>Evaluating the model on concrete runs\<close>

lemmas run_eval =
  Run_def run_def doRequest_def afterRequest_def nextBackOff_def resetBackOff_def
  mkRequest_def adjustedEndBlock_def adjustedEndBlockLog_def malformedHeader_def shutdown_def
  recvFailure_def retryable_def invalidCursor_def traceLog_def emit_def
  handleBlockData_def handleUndoSignal_def handleSession_def handleProgress_def
  initialSt_def initialMetrics_def exampleDeps_def acceptingHandler_def exampleSinker_def
  exampleUndo_def serverSession_def canceledEnv_def blockAt_def stageString_def Let_def

section \<open>Progress messages: the last contiguous block (claim C1)\<close>

text \<open>
  What the loop over the completed ranges of one stage does to the gauge. Outside
  the last stage of production mode it is the end of the first range. In the last
  stage of production mode it is the end of the last range that starts at or after
  \<^verbatim>\<open>requestActiveStartBlock\<close> (and ends there or later), and it is left alone when
  there is no such range.
\<close>

lemma completedRangesLoop_later:
  assumes "\<not> (m = SubstreamsModeProduction \<and> int i = int n - 1)" and "j \<noteq> 0"
  shows "fst (completedRangesLoop m active n i j rs (gauge, tot)) = gauge"
  using assms by (induction rs arbitrary: j tot) auto

lemma completedRangesLoop_first:
  assumes "\<not> (m = SubstreamsModeProduction \<and> int i = int n - 1)"
  shows "fst (completedRangesLoop m active n i 0 (r # rs) (gauge, tot)) =
           gauge(stageString i \<mapsto> rangeEndBlock r)"
  using assms by (auto simp: completedRangesLoop_later)

lemma completedRangesLoop_production_last:
  assumes "int i = int n - 1"
  shows "fst (completedRangesLoop SubstreamsModeProduction active n i j rs (gauge, tot)) =
           (case rev (filter (\<lambda>r. active \<le> rangeStartBlock r \<and> active \<le> rangeEndBlock r) rs) of
              [] \<Rightarrow> gauge
            | r # earlier \<Rightarrow> gauge(stageString i \<mapsto> rangeEndBlock r))"
  using assms
proof (induction rs arbitrary: j gauge tot)
  case Nil
  then show ?case by simp
next
  case (Cons r rs)
  show ?case
    using Cons.prems Cons.IH [OF Cons.prems]
    by (auto split: list.splits)
qed

text \<open>
  Claim C1: when a Progress message is handled in production mode, the
  \<^verbatim>\<open>last_contiguous_block\<close> gauge of the last stage is set from the completed range
  whose interval \<open>[start, end]\<close> contains \<^verbatim>\<open>requestActiveStartBlock\<close>.

  The code compares the other way round (\<^verbatim>\<open>s.requestActiveStartBlock <= r.StartBlock\<close>),
  against its own comment on that line. The theorem runs the code on two Progress
  messages with a single stage, in production mode with \<^verbatim>\<open>requestActiveStartBlock\<close> 10:
  the range \<open>[5, 20]\<close> contains block 10 and the gauge stays unset; of the ranges
  \<open>[10, 20]\<close> and \<open>[30, 40]\<close> the second does not contain block 10 and the gauge ends
  at 40.
\<close>

theorem progress_last_contiguous_block_divergence:
  "ProgressMessageLastContiguousBlock (metrics (handleProgress
      \<lparr>runningJobs = [],
       stages = [\<lparr>stageModules = [''map_out''],
                  completedRanges = [\<lparr>rangeStartBlock = 5, rangeEndBlock = 20\<rparr>]\<rparr>]\<rparr>
      (initialSt (exampleSinker\<lparr>requestActiveStartBlock := 10\<rparr>)))) (stageString 0) = None
   \<and> ProgressMessageLastContiguousBlock (metrics (handleProgress
      \<lparr>runningJobs = [],
       stages = [\<lparr>stageModules = [''map_out''],
                  completedRanges = [\<lparr>rangeStartBlock = 10, rangeEndBlock = 20\<rparr>,
                                     \<lparr>rangeStartBlock = 30, rangeEndBlock = 40\<rparr>]\<rparr>]\<rparr>
      (initialSt (exampleSinker\<lparr>requestActiveStartBlock := 10\<rparr>)))) (stageString 0) = Some 40"
  by (simp add: handleProgress_def initialSt_def exampleSinker_def initialMetrics_def
        stageString_def)

section \<open>Final blocks only and the undo handler (claim C3)\<close>





section \<open>Errors of the stream receive (claim C5)\<close>




section \<open>The constructor (claim C10)\<close>

text \<open>
  Claim C10, as stated: for every combination of its arguments \<^verbatim>\<open>New\<close> returns a
  sinker and a nil error.

  It fails on a nil package: the log line \<^verbatim>\<open>sinker configured\<close> reads
  \<^verbatim>\<open>len(s.pkg.Modules.Modules)\<close>, and \<^verbatim>\<open>New\<close> panics instead of returning.
\<close>

theorem New_nil_package_counterexample:
  "New SubstreamsModeProduction None
     (Some \<lparr>moduleName = ''map_out'', moduleOutput = Some \<lparr>outputType = ''proto:out''\<rparr>\<rparr>)
     [] None (Some \<lparr>debugEnabled = False\<rparr>) (Some False) (constantBackOff 500) [] = Panics"
  by (simp add: New_def)

text \<open>
  Claim C10, amended: \<^verbatim>\<open>New\<close> never returns an error, and it returns a sinker with
  a nil error exactly when the package and its modules, the output module and its
  output, and the logger are not nil; on the other arguments it panics with a nil
  dereference.
\<close>

theorem New_returns:
  "(\<exists>s. New m p om hash cc lg tr ex opts = Returns (s, None)) =
     ((case p of None \<Rightarrow> False | Some p' \<Rightarrow> pkgModules p' \<noteq> None) \<and>
      (case om of None \<Rightarrow> False | Some om' \<Rightarrow> moduleOutput om' \<noteq> None) \<and>
      lg \<noteq> None)
   \<and> (\<forall>s e. New m p om hash cc lg tr ex opts \<noteq> Returns (s, Some e))
   \<and> (New m p om hash cc lg tr ex opts = Panics
        \<or> (\<exists>s. New m p om hash cc lg tr ex opts = Returns (s, None)))"
  by (auto simp: New_def Let_def split: option.splits)

section \<open>The stop block of a request (claim C7)\<close>


text \<open>
  The older copy of the sinker asks for \<^verbatim>\<open>math.MaxUint64\<close> when no range is
  configured; the sinker modelled here replaced that by \<^verbatim>\<open>adjustedEndBlock\<close>.
\<close>

lemma legacyStopBlock_no_range: "blockRange s = None \<Longrightarrow> legacyStopBlock s = - 1"
  by (simp add: legacyStopBlock_def legacyAdjustStreamRange_def split: option.splits)




section \<open>Session messages (claim C4)\<close>

lemma active_handleBlockData:
  "requestActiveStartBlock (sinker (snd (snd (handleBlockData deps h d ac st)))) =
   requestActiveStartBlock (sinker st)"
  by (simp add: handleBlockData_def Let_def split_beta split: sum.splits option.splits)

lemma active_handleUndoSignal:
  "requestActiveStartBlock (sinker (snd (snd (handleUndoSignal deps h u ac st)))) =
   requestActiveStartBlock (sinker st)"
  by (simp add: handleUndoSignal_def Let_def split_beta split: sum.splits option.splits)

lemma active_handleResponse:
  "requestActiveStartBlock (sinker (snd (snd (handleResponse deps h r ac st)))) =
   lastResolvedStartBlock [r] (requestActiveStartBlock (sinker st))"
  by (cases r)
     (simp_all add: active_handleBlockData active_handleUndoSignal handleSession_def Let_def)

lemma lastResolvedStartBlock_Cons:
  "lastResolvedStartBlock (r # rest) v = lastResolvedStartBlock rest (lastResolvedStartBlock [r] v)"
  by (cases r) simp_all

text \<open>
  Claim C4, as stated: the first \<^verbatim>\<open>Session\<close> message of a stream is recorded, and a
  further one is ignored with a warning and leaves the recorded value unchanged.

  It fails: the \<^verbatim>\<open>Session\<close> branch has no guard. The server sends two \<^verbatim>\<open>Session\<close>
  messages, resolved at block 10 and then at block 20, and closes the stream; the
  sinker ends with 20 recorded, and no warning is logged.
\<close>

theorem session_recorded_once_counterexample:
  "requestActiveStartBlock (sinker (snd (doRequest exampleDeps (acceptingHandler None)
      (serverSession
         [Response_Session \<lparr>traceId = ''t'', resolvedStartBlock = 10,
                            linearHandoffBlock = 0, maxParallelWorkers = 1\<rparr>,
          Response_Session \<lparr>traceId = ''t'', resolvedStartBlock = 20,
                            linearHandoffBlock = 0, maxParallelWorkers = 1\<rparr>] EOF)
      None (mkRequest exampleDeps exampleSinker 100 105 None) (initialSt exampleSinker)))) = 20
   \<and> filter (\<lambda>e. case e of Log Warn m \<Rightarrow> True | _ \<Rightarrow> False)
        (events (snd (doRequest exampleDeps (acceptingHandler None)
      (serverSession
         [Response_Session \<lparr>traceId = ''t'', resolvedStartBlock = 10,
                            linearHandoffBlock = 0, maxParallelWorkers = 1\<rparr>,
          Response_Session \<lparr>traceId = ''t'', resolvedStartBlock = 20,
                            linearHandoffBlock = 0, maxParallelWorkers = 1\<rparr>] EOF)
      None (mkRequest exampleDeps exampleSinker 100 105 None) (initialSt exampleSinker)))) = []"
  by (simp add: run_eval)

text \<open>
  Claim C4, amended: every \<^verbatim>\<open>Session\<close> message that is received is logged at info
  level and its \<^verbatim>\<open>resolved_start_block\<close> is written into \<^verbatim>\<open>requestActiveStartBlock\<close>, and
  no other message changes that field; so once the messages \<open>msgs\<close> of a stream have
  all been dispatched (the loop waits in \<^verbatim>\<open>Recv\<close> for the next one), the field holds
  the value of the last \<^verbatim>\<open>Session\<close> message among them.
\<close>

theorem session_last_recorded:
  assumes "recvLoop deps h None msgs activeCursor received st = (Hangs, st')"
  shows "requestActiveStartBlock (sinker st') =
           lastResolvedStartBlock msgs (requestActiveStartBlock (sinker st))
       \<and> handleResponse deps h (Response_Session session) activeCursor st =
           (None, activeCursor,
            (emit (Log Info ''session initialized with remote endpoint'') st)
              \<lparr>sinker := (sinker st)\<lparr>requestActiveStartBlock := resolvedStartBlock session\<rparr>\<rparr>)"
proof -
  have "requestActiveStartBlock (sinker st') =
           lastResolvedStartBlock msgs (requestActiveStartBlock (sinker st))"
    using assms
  proof (induction msgs arbitrary: st activeCursor received)
    case Nil
    then show ?case
      by (auto simp: Let_def split: option.splits)
  next
    case (Cons r rest)
    let ?st0 = "traceLog ''substreams waiting to receive message'' st"
    obtain res ac' st1 where hr: "handleResponse deps h r activeCursor ?st0 = (res, ac', st1)"
      by (cases "handleResponse deps h r activeCursor ?st0") auto
    from Cons.prems hr have res: "res = None"
      and rec: "recvLoop deps h None rest ac' True st1 = (Hangs, st')"
      by (auto split: option.splits)
    have "requestActiveStartBlock (sinker st1) =
        lastResolvedStartBlock [r] (requestActiveStartBlock (sinker st))"
      using active_handleResponse [of deps h r activeCursor ?st0] hr by simp
    then show ?case
      using Cons.IH [OF rec] by (simp add: lastResolvedStartBlock_Cons [of r rest])
  qed
  then show ?thesis
    by (simp add: handleSession_def Let_def)
qed

theorem session_last_recorded_witness:
  "requestActiveStartBlock (sinker (snd (recvLoop exampleDeps (acceptingHandler None) None
      [Response_Session \<lparr>traceId = ''t'', resolvedStartBlock = 10,
                         linearHandoffBlock = 0, maxParallelWorkers = 1\<rparr>,
       Response_BlockScopedData (blockAt 100 ''c100''),
       Response_Session \<lparr>traceId = ''t'', resolvedStartBlock = 20,
                         linearHandoffBlock = 0, maxParallelWorkers = 1\<rparr>]
      None False (initialSt exampleSinker)))) = 20"
proof -
  obtain st' where r: "recvLoop exampleDeps (acceptingHandler None) None
      [Response_Session \<lparr>traceId = ''t'', resolvedStartBlock = 10,
                         linearHandoffBlock = 0, maxParallelWorkers = 1\<rparr>,
       Response_BlockScopedData (blockAt 100 ''c100''),
       Response_Session \<lparr>traceId = ''t'', resolvedStartBlock = 20,
                         linearHandoffBlock = 0, maxParallelWorkers = 1\<rparr>]
      None False (initialSt exampleSinker) = (Hangs, st')"
    by (simp add: run_eval)
  show ?thesis
    using session_last_recorded [OF r] r by (simp add: initialSt_def exampleSinker_def)
qed

section \<open>The received-message flag and the back-off counter (claim C9)\<close>

lemma recvLoop_received:
  assumes "recvLoop deps h final msgs ac rcv st = (Returns (ac', r, e), st')"
  shows "r = (rcv \<or> msgs \<noteq> [])"
  using assms
proof (induction msgs arbitrary: st ac rcv)
  case Nil
  then show ?case by (auto simp: Let_def split: option.splits)
next
  case (Cons m rest)
  let ?st0 = "traceLog ''substreams waiting to receive message'' st"
  obtain res ac1 st1 where hr: "handleResponse deps h m ac ?st0 = (res, ac1, st1)"
    by (cases "handleResponse deps h m ac ?st0") auto
  show ?case
  proof (cases res)
    case None
    with Cons.prems hr have "recvLoop deps h final rest ac1 True st1 = (Returns (ac', r, e), st')"
      by (auto split: option.splits)
    from Cons.IH [OF this] show ?thesis by simp
  next
    case (Some err)
    with Cons.prems hr show ?thesis by (auto split: option.splits)
  qed
qed

lemma doRequest_received:
  assumes "doRequest deps h sess ac req st = (Returns (ac', r, e), st')"
  shows "r = (blocksError sess = None \<and> responses sess \<noteq> [])"
proof (cases "blocksError sess")
  case None
  with assms have "recvLoop deps h (recvError sess) (responses sess) ac False
      (emit (Blocks req) (emit (Log Debug ''launching substreams request'') st))
      = (Returns (ac', r, e), st')"
    by (simp add: doRequest_def Let_def)
  from recvLoop_received [OF this] None show ?thesis by simp
next
  case (Some err)
  with assms show ?thesis by (auto simp: doRequest_def Let_def)
qed

text \<open>
  Claim C9: a session that received at least one message, of any kind, resets the
  back-off counter when it ends, even when it ends with an error; a session that
  received no message leaves the counter as it was.

  \<^verbatim>\<open>doRequest\<close> returns only with an error. Its flag is true exactly when the RPC was
  opened and at least one message was received, whatever the message and whatever
  ends the session afterwards. \<^verbatim>\<open>run\<close> calls \<^verbatim>\<open>Reset\<close> once if the flag is true and not
  at all otherwise; when it goes on to retry, the counter it retries with is one
  more (for the retry itself, under the cap) than 0 after a reset and than the old
  count without one, on the delegate policy that was reset or left alone.
\<close>

theorem received_message_resets_backoff:
  assumes "doRequest deps h sess activeCursor req st = (Returns (activeCursor', received, err), st1)"
    and "afterRequest sess bo activeCursor' received err st1 = (res, st2)"
  shows "received = (blocksError sess = None \<and> responses sess \<noteq> [])
       \<and> length (filter (\<lambda>e. e = BackOffReset) (events st2)) =
           length (filter (\<lambda>e. e = BackOffReset) (events st1)) + (if received then 1 else 0)
       \<and> (\<forall>bo'. res = Inr bo' \<longrightarrow>
            numTries bo' =
              (if received then 0 else numTries bo) + (if maxTries bo = None then 0 else 1)
            \<and> delegate bo' =
              afterNext (if received then afterReset (delegate bo) else delegate bo))"
proof -
  have flag: "received = (blocksError sess = None \<and> responses sess \<noteq> [])"
    using assms(1) by (rule doRequest_received)
  have rest: "length (filter (\<lambda>e. e = BackOffReset) (events st2)) =
           length (filter (\<lambda>e. e = BackOffReset) (events st1)) + (if received then 1 else 0)
       \<and> (\<forall>bo'. res = Inr bo' \<longrightarrow>
            numTries bo' =
              (if received then 0 else numTries bo) + (if maxTries bo = None then 0 else 1)
            \<and> delegate bo' =
              afterNext (if received then afterReset (delegate bo) else delegate bo))"
    using assms(2)
    by (auto simp: afterRequest_def nextBackOff_def resetBackOff_def Let_def
          split: if_splits option.splits prod.splits)
  show ?thesis using flag rest by simp
qed


theorem received_message_resets_backoff_witness:
  "\<exists>st1 bo' st2.
     doRequest exampleDeps (acceptingHandler None)
       (serverSession [Response_BlockScopedData (blockAt 100 ''c100'')] (GRPCError Unavailable ''down''))
       None (mkRequest exampleDeps exampleSinker 100 105 None) (initialSt exampleSinker)
     = (Returns (Some (Cursor ''c100''), True, RetryableError (GRPCError Unavailable ''down'')), st1)
     \<and> afterRequest
         (serverSession [Response_BlockScopedData (blockAt 100 ''c100'')] (GRPCError Unavailable ''down''))
         \<lparr>delegate = constantBackOff 500, maxTries = Some 15, numTries = 7\<rparr>
         (Some (Cursor ''c100'')) True (RetryableError (GRPCError Unavailable ''down'')) st1
       = (Inr bo', st2)
     \<and> numTries bo' = 1
     \<and> length (filter (\<lambda>e. e = BackOffReset) (events st2)) =
         length (filter (\<lambda>e. e = BackOffReset) (events st1)) + 1"
proof -
  let ?sess = "serverSession [Response_BlockScopedData (blockAt 100 ''c100'')]
      (GRPCError Unavailable ''down'')"
  let ?bo = "\<lparr>delegate = constantBackOff 500, maxTries = Some 15, numTries = 7\<rparr>"
  obtain st1 where d: "doRequest exampleDeps (acceptingHandler None) ?sess
       None (mkRequest exampleDeps exampleSinker 100 105 None) (initialSt exampleSinker)
     = (Returns (Some (Cursor ''c100''), True, RetryableError (GRPCError Unavailable ''down'')), st1)"
    by (simp add: run_eval)
  obtain bo' st2 where a: "afterRequest ?sess ?bo (Some (Cursor ''c100'')) True
      (RetryableError (GRPCError Unavailable ''down'')) st1 = (Inr bo', st2)"
    by (simp add: afterRequest_def nextBackOff_def resetBackOff_def serverSession_def Let_def)
  from received_message_resets_backoff [OF d a]
  have "numTries bo' = 1"
    and "length (filter (\<lambda>e. e = BackOffReset) (events st2)) =
         length (filter (\<lambda>e. e = BackOffReset) (events st1)) + 1"
    by simp_all
  with d a show ?thesis by blast
qed

section \<open>The cap on retries (claim C6)\<close>












section \<open>Completion and cancellation (claims C2 and C8)\<close>

text \<open>
  The completion callback is called exactly when \<^verbatim>\<open>run\<close> returns a nil error and
  the handler implements it, once, with the cursor \<^verbatim>\<open>run\<close> returned.
\<close>

lemma run_no_completion:
  "filter isCompletionCall (events st) = [] \<Longrightarrow>
   filter isCompletionCall (events (snd (run deps h env cursor st))) = []"
proof -
  assume "filter isCompletionCall (events st) = []"
  then have "list_all (\<lambda>e. \<not> isCompletionCall e) (events st)"
    by (simp add: filter_empty_conv list_all_iff)
  then have "list_all (\<lambda>e. \<not> isCompletionCall e) (events (snd (run deps h env cursor st)))"
    by (rule run_events) simp_all
  then show ?thesis
    by (simp add: filter_empty_conv list_all_iff)
qed

lemma Run_completion_calls:
  "filter isCompletionCall (events (snd (Run deps h env cursor (initialSt s)))) =
     (case (fst (run deps h env cursor
                  (emit (Log Info ''starting sinker'')
                     (if adjustedEndBlock s \<noteq> 0
                      then adjustedEndBlockLog (adjustedEndBlockLog (initialSt s))
                      else adjustedEndBlockLog (initialSt s)))),
            handleBlockRangeCompletion h) of
        (Returns (lastCursor, None), Some complete) \<Rightarrow> [HandleBlockRangeCompletion lastCursor]
      | _ \<Rightarrow> [])"
proof -
  let ?st0 = "emit (Log Info ''starting sinker'')
                     (if adjustedEndBlock s \<noteq> 0
                      then adjustedEndBlockLog (adjustedEndBlockLog (initialSt s))
                      else adjustedEndBlockLog (initialSt s))"
  have "filter isCompletionCall (events ?st0) = []"
    by (simp add: adjustedEndBlockLog_def initialSt_def split: option.splits)
  then have r: "filter isCompletionCall (events (snd (run deps h env cursor ?st0))) = []"
    by (rule run_no_completion)
  obtain out st1 where o: "run deps h env cursor ?st0 = (out, st1)"
    by (cases "run deps h env cursor ?st0") auto
  have s: "sinker (initialSt s) = s" by (simp add: initialSt_def)
  show ?thesis
    using r o
    by (simp add: Run_def Let_def shutdown_def s split: exec.splits option.splits prod.splits)
qed

text \<open>
  When the context is cancelled at the end of \<^verbatim>\<open>Run\<close>, the shutdown carries no error
  unless it is the error of the completion callback.
\<close>

lemma Run_shutdown_on_cancel:
  assumes "ctxErrAtShutdown env = Some ContextCanceled"
    and "Run deps h env cursor st = (Returns (), st')"
  shows "last (events st') = Shutdown None
       \<or> (\<exists>err. last (events st') =
             Shutdown (Some (Wrapf ''sinker completion handler error'' err)))"
  using assms
  by (auto simp: Run_def Let_def shutdown_def split: exec.splits option.splits prod.splits)

text \<open>
  Claim C2: \<^verbatim>\<open>HandleBlockRangeCompletion\<close> is invoked exactly once with the last cursor
  when and only when the session ends with the stop block reached on a bounded
  range; never when the run ends by error, by cancellation or under infinite
  streaming.

  On cancellation \<^verbatim>\<open>run\<close> returns a nil error, the same result as for a stop block
  reached, and \<^verbatim>\<open>Run\<close> calls the completion callback. The theorem runs the cancelled
  run \<open>canceledEnv\<close> (one block out of five delivered) with a handler that has a
  completion callback: \<^verbatim>\<open>run\<close> returns the cursor of block 100 and no error, and the
  callback is called with that cursor.
\<close>

theorem completion_called_on_cancellation:
  "fst (run exampleDeps (acceptingHandler (Some (\<lambda>evs c. None))) canceledEnv None
         (initialSt exampleSinker)) = Returns (Some (Cursor ''c100''), None)
   \<and> filter isCompletionCall
        (events (snd (Run exampleDeps (acceptingHandler (Some (\<lambda>evs c. None))) canceledEnv None
           (initialSt exampleSinker))))
     = [HandleBlockRangeCompletion (Some (Cursor ''c100''))]"
  by (simp add: run_eval canceledEnv_def)

text \<open>
  Claim C8: in every run in which the caller's context is cancelled, the receive
  error is swallowed inside the run loop and \<^verbatim>\<open>Run\<close> shuts down with a nil error
  instead of surfacing any error.

  The same cancelled run, with a completion callback that fails (its own work is
  cancelled too): because \<^verbatim>\<open>run\<close> returned a nil error the callback is called, and
  \<^verbatim>\<open>Run\<close> returns right after \<^verbatim>\<open>s.Shutdown\<close> with the callback's error, before it
  reaches the test of \<^verbatim>\<open>ctx.Err()\<close>.
\<close>

theorem cancellation_surfaces_completion_error:
  "fst (Run exampleDeps
          (acceptingHandler (Some (\<lambda>evs c. Some (ErrorString ''flush: context canceled''))))
          canceledEnv None (initialSt exampleSinker)) = Returns ()
   \<and> last (events (snd (Run exampleDeps
          (acceptingHandler (Some (\<lambda>evs c. Some (ErrorString ''flush: context canceled''))))
          canceledEnv None (initialSt exampleSinker))))
     = Shutdown (Some (Wrapf ''sinker completion handler error''
                        (ErrorString ''flush: context canceled'')))"
  by (simp add: run_eval canceledEnv_def)

end
